theory Spec2Isabelle
  imports Complex_Main
begin

section \<open>Values exchanged with the service\<close>

text \<open>
  The benchmark of \<^verbatim>\<open>benchmark.py\<close> talks to an HTTP service through the
  \<^verbatim>\<open>requests\<close> library. A decoded JSON document is a value of type \<open>json\<close>; a
  Python \<^verbatim>\<open>dict\<close> is an association list read with \<open>map_of\<close>. Python floats
  (wall-clock readings and their differences) are modelled as real numbers.
\<close>

datatype json =
    JNull
  | JBool bool
  | JNumber real
  | JString string
  | JArray "json list"
  | JObject "(string \<times> json) list"

text \<open>
  The exceptions the program can meet. \<open>Timeout\<close> and \<open>ConnectionError\<close> are the two
  classes of \<^verbatim>\<open>requests\<close> that the source names; \<open>RequestException\<close> stands for
  any other exception raised by the library (an invalid URL, too many redirects, a broken
  chunked encoding). A connect timeout, which inherits from both named classes, is
  \<open>Timeout\<close>: both handlers of the source test that class first.
\<close>

datatype exn =
    ConnectionError
  | Timeout
  | RequestException
  | JSONDecodeError
  | AttributeError
  | KeyError
  | ZeroDivisionError

datatype http_method = GET | POST

record request =
  http_method :: http_method
  url :: string
  json_payload :: "json option"
  timeout :: real

text \<open>
  A response carries its status code and its body as \<^verbatim>\<open>response.json()\<close> decodes
  it: \<open>None\<close> when the body is not valid JSON and the decoder raises.
\<close>

record response =
  status_code :: int
  body_json :: "json option"

datatype outcome = Responds response | Raises exn

text \<open>
  One network exchange as the environment decides it: the reading of \<^verbatim>\<open>time.time()\<close>
  just before the call, what the call does, and the reading just after it. The
  environment is a script of exchanges, indexed by the number of requests sent so far.
\<close>

record exchange =
  clock_before :: real
  outcome :: outcome
  clock_after :: real

type_synonym env = "nat \<Rightarrow> exchange"

section \<open>The state of a HumanizerBenchmark\<close>

text \<open>One entry of \<^verbatim>\<open>self.results\<close>: the dictionary appended per sample text.\<close>

record aggregate =
  size_r :: string
  length_r :: nat
  fast_mode :: real
  enhanced_mode :: real

text \<open>
  The lines printed on the console, one constructor per \<^verbatim>\<open>print\<close> of the source,
  carrying the values that the line formats.
\<close>

datatype event =
    Rule
  | Title
  | CheckingServer
  | ServerNotRunning
  | StartHint
  | ServerRunning
  | TestingText string nat
  | ModeFast
  | ModeEnhanced
  | TimeLine real
  | OriginalLine json
  | HumanizedLine json
  | SpeedDifference real
  | ErrorStatus int
  | ErrorTimedOut
  | ErrorException exn
  | SummaryTitle
  | TableHeader
  | Dashes
  | TableRow string nat real real real
  | TotalRow real real real
  | RecommendationHeader
  | RecommendFast real
  | RecommendEnhanced
  | BenchmarkComplete

text \<open>
  The object's fields \<open>base_url\<close> and \<open>results\<close>, with the requests issued so far and
  the console output made explicit.
\<close>

record state =
  base_url :: string
  results :: "aggregate list"
  sent :: "request list"
  console :: "event list"

definition init :: "string \<Rightarrow> state" where
  "init b = \<lparr>base_url = b, results = [], sent = [], console = []\<rparr>"

definition print_line :: "event \<Rightarrow> state \<Rightarrow> state" where
  "print_line e s = s\<lparr>console := console s @ [e]\<rparr>"

definition print_lines :: "event list \<Rightarrow> state \<Rightarrow> state" where
  "print_lines es s = s\<lparr>console := console s @ es\<rparr>"

text \<open>Issuing a request records it and takes the next exchange of the script.\<close>

definition send :: "env \<Rightarrow> request \<Rightarrow> state \<Rightarrow> exchange \<times> state" where
  "send env rq s = (env (length (sent s)), s\<lparr>sent := sent s @ [rq]\<rparr>)"

section \<open>Python primitives\<close>

text \<open>Truth value of a decoded JSON value, as \<^verbatim>\<open>if stats:\<close> tests it.\<close>

fun truthy :: "json \<Rightarrow> bool" where
  "truthy JNull = False"
| "truthy (JBool b) = b"
| "truthy (JNumber x) = (x \<noteq> 0)"
| "truthy (JString t) = (t \<noteq> [])"
| "truthy (JArray xs) = (xs \<noteq> [])"
| "truthy (JObject kvs) = (kvs \<noteq> [])"

text \<open>\<^verbatim>\<open>d.get(k, default)\<close>: only a dict has the method.\<close>

fun py_get :: "json \<Rightarrow> string \<Rightarrow> json \<Rightarrow> exn + json" where
  "py_get (JObject kvs) k d = Inr (case map_of kvs k of None \<Rightarrow> d | Some v \<Rightarrow> v)"
| "py_get _ k d = Inl AttributeError"

text \<open>Float division raises on a zero divisor.\<close>

definition truediv :: "real \<Rightarrow> real \<Rightarrow> exn + real" where
  "truediv a b = (if b = 0 then Inl ZeroDivisionError else Inr (a / b))"

section \<open>Sample texts\<close>

definition text_short :: string where
  "text_short =
     ''This is an AI-generated paragraph that needs to be humanized. It contains typical patterns found in machine learning outputs.''"

definition text_medium :: string where
  "text_medium =
     ''Artificial intelligence has become increasingly prevalent in modern society, with applications ranging from natural language processing to computer vision. \<newline>'' @
     ''    The development of deep learning models has revolutionized the field, enabling machines to perform complex tasks with remarkable accuracy. \<newline>'' @
     ''    However, the generated text often exhibits patterns that distinguish it from human writing, necessitating the use of specialized tools for humanization.''"

definition text_long :: string where
  "text_long =
     ''The rapid advancement of artificial intelligence technologies has fundamentally transformed the landscape of modern computing and digital communication. \<newline>'' @
     ''    Machine learning algorithms, particularly those based on deep neural networks, have demonstrated remarkable capabilities in processing and generating natural language. \<newline>'' @
     ''    These systems are extensively utilized across various domains, including customer service automation, content generation, and information retrieval. \<newline>'' @
     ''    However, the output produced by these models frequently exhibits distinctive linguistic patterns and stylistic characteristics that differentiate it from authentic human writing. \<newline>'' @
     ''    This distinction arises from the underlying computational mechanisms and training methodologies employed in developing these systems. \<newline>'' @
     ''    Consequently, texts generated purely through artificial means may be readily identifiable by discerning readers or specialized detection algorithms. \<newline>'' @
     ''    The development of humanization techniques has become increasingly important for ensuring that automatically generated content maintains an authentic and natural appearance. \<newline>'' @
     ''    Various approaches have been proposed to address this challenge, ranging from simple rule-based transformations to sophisticated neural network-based methods.''"

definition TEST_TEXTS :: "(string \<times> string) list" where
  "TEST_TEXTS = [(''short'', text_short), (''medium'', text_medium), (''long'', text_long)]"

section \<open>The benchmark\<close>

text \<open>\<^verbatim>\<open>check_server\<close>: only the two named exception classes are handled.\<close>

definition check_server :: "env \<Rightarrow> state \<Rightarrow> (exn + bool) \<times> state" where
  "check_server env s =
     (let (x, s1) = send env
            \<lparr>http_method = GET, url = base_url s @ ''/health'', json_payload = None, timeout = 5\<rparr> s
      in case outcome x of
           Responds r \<Rightarrow> (Inr (status_code r = 200), s1)
         | Raises e \<Rightarrow>
             if e = ConnectionError \<or> e = Timeout then (Inr False, s1) else (Inl e, s1))"

text \<open>The body of the \<^verbatim>\<open>try\<close> block of \<^verbatim>\<open>benchmark_humanization\<close>.\<close>

definition humanize_try ::
  "env \<Rightarrow> string \<Rightarrow> bool \<Rightarrow> state \<Rightarrow> (exn + real \<times> json) \<times> state" where
  "humanize_try env text enhanced s =
     (let payload = JObject [(''text'', JString text), (''paraphrasing'', JBool True),
                             (''enhanced'', JBool enhanced)];
          (x, s1) = send env
            \<lparr>http_method = POST, url = base_url s @ ''/humanize'',
             json_payload = Some payload, timeout = 60\<rparr> s
      in case outcome x of
           Raises e \<Rightarrow> (Inl e, s1)
         | Responds r \<Rightarrow>
             (let elapsed_time = clock_after x - clock_before x
              in if status_code r = 200 then
                   (case body_json r of
                      None \<Rightarrow> (Inl JSONDecodeError, s1)
                    | Some data \<Rightarrow>
                        (case py_get data ''statistics'' (JObject []) of
                           Inl e \<Rightarrow> (Inl e, s1)
                         | Inr st \<Rightarrow> (Inr (elapsed_time, st), s1)))
                 else (Inr (elapsed_time, JObject []),
                       print_line (ErrorStatus (status_code r)) s1)))"

text \<open>
  \<^verbatim>\<open>benchmark_humanization\<close>: the \<^verbatim>\<open>try\<close> block with its two handlers,
  \<^verbatim>\<open>except requests.Timeout\<close> first, then \<^verbatim>\<open>except Exception\<close>.
\<close>

definition benchmark_humanization ::
  "env \<Rightarrow> string \<Rightarrow> string \<Rightarrow> bool \<Rightarrow> state \<Rightarrow> (exn + real \<times> json) \<times> state" where
  "benchmark_humanization env text text_name enhanced s =
     (case humanize_try env text enhanced s of
        (Inr v, s1) \<Rightarrow> (Inr v, s1)
      | (Inl e, s1) \<Rightarrow>
          if e = Timeout then (Inr (60, JObject []), print_line ErrorTimedOut s1)
          else (Inr (0, JObject []), print_line (ErrorException e) s1))"

text \<open>
  The lines printed after each timed call in \<^verbatim>\<open>run_benchmark\<close>: the time, and
  the two lengths when the statistics are truthy.
\<close>

definition print_time_stats :: "real \<Rightarrow> json \<Rightarrow> state \<Rightarrow> (exn + unit) \<times> state" where
  "print_time_stats t stats s =
     (let s1 = print_line (TimeLine t) s
      in if truthy stats then
           (case py_get stats ''original_length'' (JNumber 0) of
              Inl e \<Rightarrow> (Inl e, s1)
            | Inr orig \<Rightarrow>
                (let s2 = print_line (OriginalLine orig) s1
                 in case py_get stats ''final_length'' (JNumber 0) of
                      Inl e \<Rightarrow> (Inl e, s2)
                    | Inr fin \<Rightarrow> (Inr (), print_line (HumanizedLine fin) s2)))
         else (Inr (), s1))"

text \<open>The conditional expression \<^verbatim>\<open>a / b if b > 0 else 1\<close>.\<close>

definition speedup_of :: "real \<Rightarrow> real \<Rightarrow> exn + real" where
  "speedup_of enhanced fast = (if fast > 0 then truediv enhanced fast else Inr 1)"

text \<open>One iteration of the loop of \<^verbatim>\<open>run_benchmark\<close>.\<close>

definition run_text :: "env \<Rightarrow> string \<Rightarrow> state \<Rightarrow> (exn + unit) \<times> state" where
  "run_text env text_size s =
     (case map_of TEST_TEXTS text_size of
        None \<Rightarrow> (Inl KeyError, s)
      | Some text \<Rightarrow>
          (let text_length = length text;
               s1 = print_lines [Rule, TestingText text_size text_length, Rule, ModeFast] s
           in case benchmark_humanization env text text_size False s1 of
                (Inl e, s2) \<Rightarrow> (Inl e, s2)
              | (Inr (time_fast, stats_fast), s2) \<Rightarrow>
          (case print_time_stats time_fast stats_fast s2 of
                (Inl e, s3) \<Rightarrow> (Inl e, s3)
              | (Inr _, s3) \<Rightarrow>
          (case benchmark_humanization env text text_size True (print_line ModeEnhanced s3) of
                (Inl e, s4) \<Rightarrow> (Inl e, s4)
              | (Inr (time_enhanced, stats_enhanced), s4) \<Rightarrow>
          (case print_time_stats time_enhanced stats_enhanced s4 of
                (Inl e, s5) \<Rightarrow> (Inl e, s5)
              | (Inr _, s5) \<Rightarrow>
          (case (if time_enhanced > 0 then
                   (case speedup_of time_enhanced time_fast of
                      Inl e \<Rightarrow> (Inl e, s5)
                    | Inr speedup \<Rightarrow> (Inr (), print_line (SpeedDifference speedup) s5))
                 else (Inr (), s5)) of
                (Inl e, s6) \<Rightarrow> (Inl e, s6)
              | (Inr _, s6) \<Rightarrow>
                  (Inr (), s6\<lparr>results := results s6 @
                     [\<lparr>size_r = text_size, length_r = text_length,
                       fast_mode = time_fast, enhanced_mode = time_enhanced\<rparr>]\<rparr>)))))))"

fun run_texts :: "env \<Rightarrow> string list \<Rightarrow> state \<Rightarrow> (exn + unit) \<times> state" where
  "run_texts env [] s = (Inr (), s)"
| "run_texts env (text_size # rest) s =
     (case run_text env text_size s of
        (Inl e, s1) \<Rightarrow> (Inl e, s1)
      | (Inr _, s1) \<Rightarrow> run_texts env rest s1)"

text \<open>The loop over \<^verbatim>\<open>self.results\<close> in \<^verbatim>\<open>print_summary\<close>.\<close>

fun print_rows :: "aggregate list \<Rightarrow> state \<Rightarrow> (exn + unit) \<times> state" where
  "print_rows [] s = (Inr (), s)"
| "print_rows (result # rest) s =
     (let fast = fast_mode result; enhanced = enhanced_mode result
      in case speedup_of enhanced fast of
           Inl e \<Rightarrow> (Inl e, s)
         | Inr speedup \<Rightarrow>
             print_rows rest
               (print_line (TableRow (size_r result) (length_r result) fast enhanced speedup) s))"

definition print_summary :: "state \<Rightarrow> (exn + unit) \<times> state" where
  "print_summary s =
     (case print_rows (results s)
             (print_lines [Rule, SummaryTitle, Rule, TableHeader, Dashes] s) of
        (Inl e, s1) \<Rightarrow> (Inl e, s1)
      | (Inr _, s1) \<Rightarrow>
          (let total_fast = sum_list (map fast_mode (results s1));
               total_enhanced = sum_list (map enhanced_mode (results s1))
           in case speedup_of total_enhanced total_fast of
                Inl e \<Rightarrow> (Inl e, s1)
              | Inr avg_speedup \<Rightarrow>
                  (Inr (), print_lines
                     [Dashes, TotalRow total_fast total_enhanced avg_speedup,
                      RecommendationHeader, RecommendFast avg_speedup, RecommendEnhanced,
                      BenchmarkComplete] s1)))"

definition run_benchmark :: "env \<Rightarrow> state \<Rightarrow> (exn + unit) \<times> state" where
  "run_benchmark env s =
     (let s1 = print_lines [Rule, Title, Rule, CheckingServer] s
      in case check_server env s1 of
           (Inl e, s2) \<Rightarrow> (Inl e, s2)
         | (Inr up, s2) \<Rightarrow>
             if \<not> up then (Inr (), print_lines [ServerNotRunning, StartHint] s2)
             else
               (case run_texts env [''short'', ''medium'', ''long''] (print_line ServerRunning s2) of
                  (Inl e, s3) \<Rightarrow> (Inl e, s3)
                | (Inr _, s3) \<Rightarrow> print_summary s3))"


section \<open>Concrete environments and states\<close>

text \<open>The request that \<^verbatim>\<open>benchmark_humanization\<close> builds, written out once.\<close>

abbreviation humanize_request :: "string \<Rightarrow> string \<Rightarrow> bool \<Rightarrow> request" where
  "humanize_request b t e \<equiv>
     \<lparr>http_method = POST, url = b @ ''/humanize'',
      json_payload = Some (JObject [(''text'', JString t), (''paraphrasing'', JBool True),
                                    (''enhanced'', JBool e)]),
      timeout = 60\<rparr>"

text \<open>The object as \<^verbatim>\<open>main\<close> creates it, with the default base URL.\<close>

definition default_state :: state where
  "default_state = init ''http://localhost:5000''"

text \<open>An exchange that is answered, with its clock readings, status and decoded body; and one that raises.\<close>

definition answers :: "real \<Rightarrow> real \<Rightarrow> int \<Rightarrow> json option \<Rightarrow> exchange" where
  "answers t0 t1 code b =
     \<lparr>clock_before = t0, outcome = Responds \<lparr>status_code = code, body_json = b\<rparr>,
      clock_after = t1\<rparr>"

definition fails :: "exn \<Rightarrow> exchange" where
  "fails e = \<lparr>clock_before = 0, outcome = Raises e, clock_after = 0\<rparr>"

definition env_invalid_json :: env where
  "env_invalid_json n = answers 10 12 200 None"

definition env_json_array :: env where
  "env_json_array n = answers 10 12 200 (Some (JArray []))"

definition env_with_stats :: env where
  "env_with_stats n = answers 1 3 200
     (Some (JObject [(''statistics'',
        JObject [(''original_length'', JNumber 125), (''final_length'', JNumber 131)])]))"

definition env_no_stats :: env where
  "env_no_stats n = answers 1 3 200 (Some (JObject [(''humanized_text'', JString ''Hi'')]))"

definition env_unavailable :: env where
  "env_unavailable n = answers 4 5 503 None"

definition env_refused :: env where
  "env_refused n = fails ConnectionError"

definition env_timeout :: env where
  "env_timeout n = fails Timeout"

definition env_bad_url :: env where
  "env_bad_url n = fails RequestException"

definition env_slow :: env where
  "env_slow n = answers 0 61 200 (Some (JObject []))"

definition env_clock_set_back :: env where
  "env_clock_set_back n = answers 5 4 200 (Some (JObject []))"

definition env_list_stats :: env where
  "env_list_stats n = answers 0 1 200 (Some (JObject [(''statistics'', JArray [JNumber 1])]))"

text \<open>The health check answers 200; then fast calls take one second, enhanced calls two.\<close>

definition env_one_two :: env where
  "env_one_two n = answers 0 (if even n then 2 else 1) 200 (Some (JObject []))"

definition all_zero_state :: state where
  "all_zero_state = default_state\<lparr>results :=
     [\<lparr>size_r = ''short'', length_r = 125, fast_mode = 0, enhanced_mode = 0\<rparr>,
      \<lparr>size_r = ''medium'', length_r = 457, fast_mode = 0, enhanced_mode = 0\<rparr>]\<rparr>"

definition one_two_state :: state where
  "one_two_state = default_state\<lparr>results :=
     [\<lparr>size_r = ''short'', length_r = 123, fast_mode = 1, enhanced_mode = 2\<rparr>]\<rparr>"

text \<open>
  A statistics value that the printing code of \<^verbatim>\<open>run_benchmark\<close> can handle: it
  is falsy, or it is a dict. The service is expected to send a dict.
\<close>

definition mapping_or_falsy :: "json \<Rightarrow> bool" where
  "mapping_or_falsy v = (\<not> truthy v \<or> (case v of JObject kvs \<Rightarrow> True | _ \<Rightarrow> False))"

text \<open>Every statistics value that the scripted service sends is such a value.\<close>

definition mapping_statistics :: "env \<Rightarrow> bool" where
  "mapping_statistics env = (\<forall>n r kvs v. outcome (env n) = Responds r
       \<and> body_json r = Some (JObject kvs) \<and> map_of kvs ''statistics'' = Some v
     \<longrightarrow> mapping_or_falsy v)"

section \<open>Basic facts\<close>

lemma text_lengths:
  "length text_short = 125" "length text_medium = 457" "length text_long = 1299"
  by (simp_all add: text_short_def text_medium_def text_long_def)


lemma speedup_of_value: "speedup_of e f = Inr (if f > 0 then e / f else 1)"
  by (simp add: speedup_of_def truediv_def)

lemma humanize_try_frame:
  assumes "humanize_try env body enhanced s = (r, s')"
  shows "results s' = results s" and "base_url s' = base_url s"
    and "sent s' = sent s @ [humanize_request (base_url s) body enhanced]"
  using assms
  by (auto simp: humanize_try_def send_def print_line_def Let_def
        split: outcome.splits option.splits sum.splits if_splits)

lemma benchmark_humanization_frame:
  assumes "benchmark_humanization env body name enhanced s = (r, s')"
  shows "results s' = results s" and "base_url s' = base_url s"
    and "sent s' = sent s @ [humanize_request (base_url s) body enhanced]"
proof -
  obtain r0 s0 where h: "humanize_try env body enhanced s = (r0, s0)"
    by (cases "humanize_try env body enhanced s")
  from assms h have "results s' = results s0 \<and> base_url s' = base_url s0 \<and> sent s' = sent s0"
    by (auto simp: benchmark_humanization_def print_line_def split: sum.splits if_splits)
  with humanize_try_frame [OF h]
  show "results s' = results s" and "base_url s' = base_url s"
    and "sent s' = sent s @ [humanize_request (base_url s) body enhanced]"
    by simp_all
qed

lemma benchmark_humanization_returns:
  "\<exists>t st s'. benchmark_humanization env body name enhanced s = (Inr (t, st), s')"
  by (cases "humanize_try env body enhanced s")
     (auto simp: benchmark_humanization_def split: sum.splits)

lemma benchmark_humanization_value:
  "fst (benchmark_humanization env body name enhanced s) =
     (case outcome (env (length (sent s))) of
        Raises e \<Rightarrow> if e = Timeout then Inr (60, JObject []) else Inr (0, JObject [])
      | Responds r \<Rightarrow>
          if status_code r = 200 then
            (case body_json r of
               Some (JObject kvs) \<Rightarrow>
                 Inr (clock_after (env (length (sent s))) - clock_before (env (length (sent s))),
                      case map_of kvs ''statistics'' of None \<Rightarrow> JObject [] | Some v \<Rightarrow> v)
             | _ \<Rightarrow> Inr (0, JObject []))
          else Inr (clock_after (env (length (sent s))) - clock_before (env (length (sent s))),
                    JObject []))"
  by (simp add: benchmark_humanization_def humanize_try_def send_def print_line_def Let_def
        split: outcome.splits option.splits sum.splits json.splits)

lemma print_time_stats_frame:
  assumes "print_time_stats t st s = (r, s')"
  shows "results s' = results s" and "base_url s' = base_url s" and "sent s' = sent s"
  using assms
  by (auto simp: print_time_stats_def print_line_def Let_def split: sum.splits if_splits)

text \<open>The iteration of the loop, step by step, for a label that has a text.\<close>

lemma run_text_cases:
  assumes k: "map_of TEST_TEXTS k = Some body" and run: "run_text env k s = (r, s')"
  shows "\<exists>tf stf s2 r3 s3.
     benchmark_humanization env body k False
        (print_lines [Rule, TestingText k (length body), Rule, ModeFast] s) = (Inr (tf, stf), s2)
     \<and> print_time_stats tf stf s2 = (r3, s3)
     \<and> (case r3 of
          Inl e \<Rightarrow> r = Inl e \<and> s' = s3
        | Inr u \<Rightarrow> (\<exists>te ste s4 r5 s5.
            benchmark_humanization env body k True (print_line ModeEnhanced s3)
               = (Inr (te, ste), s4)
            \<and> print_time_stats te ste s4 = (r5, s5)
            \<and> (case r5 of
                 Inl e \<Rightarrow> r = Inl e \<and> s' = s5
               | Inr u' \<Rightarrow> r = Inr () \<and> base_url s' = base_url s5 \<and> sent s' = sent s5
                    \<and> results s' = results s5 @
                        [\<lparr>size_r = k, length_r = length body,
                          fast_mode = tf, enhanced_mode = te\<rparr>])))"
proof -
  let ?s1 = "print_lines [Rule, TestingText k (length body), Rule, ModeFast] s"
  obtain tf stf s2 where c1: "benchmark_humanization env body k False ?s1 = (Inr (tf, stf), s2)"
    using benchmark_humanization_returns by blast
  obtain r3 s3 where c2: "print_time_stats tf stf s2 = (r3, s3)"
    by (cases "print_time_stats tf stf s2")
  show ?thesis
  proof (cases r3)
    case (Inl e)
    with run k c1 c2 have "r = Inl e \<and> s' = s3"
      by (auto simp: run_text_def Let_def)
    with c1 c2 Inl show ?thesis by auto
  next
    case (Inr u)
    obtain te ste s4 where c3:
      "benchmark_humanization env body k True (print_line ModeEnhanced s3) = (Inr (te, ste), s4)"
      using benchmark_humanization_returns by blast
    obtain r5 s5 where c4: "print_time_stats te ste s4 = (r5, s5)"
      by (cases "print_time_stats te ste s4")
    have "case r5 of
            Inl e \<Rightarrow> r = Inl e \<and> s' = s5
          | Inr u' \<Rightarrow> r = Inr () \<and> base_url s' = base_url s5 \<and> sent s' = sent s5
              \<and> results s' = results s5 @
                  [\<lparr>size_r = k, length_r = length body, fast_mode = tf, enhanced_mode = te\<rparr>]"
      using run k c1 c2 c3 c4 Inr
      by (auto simp: run_text_def Let_def speedup_of_value print_line_def
            split: sum.splits if_splits)
    with c1 c2 c3 c4 Inr show ?thesis by auto
  qed
qed

section \<open>The timed call\<close>

text \<open>
  Claim C9. A response with status 200 whose body cannot be decoded as JSON does not take
  the success path: the decoder raises inside the \<^verbatim>\<open>try\<close> block, the handler for
  \<^verbatim>\<open>Exception\<close> runs, and the call returns 0.0 with the empty mapping, which is
  also what a refused connection gives. The measured time is dropped.
\<close>

theorem invalid_json_body_is_failure:
  assumes "outcome (env (length (sent s))) = Responds r"
    and "status_code r = 200" and "body_json r = None"
    and "outcome (env' (length (sent s))) = Raises ConnectionError"
  shows "fst (benchmark_humanization env body name enhanced s) = Inr (0, JObject [])
     \<and> fst (benchmark_humanization env' body name enhanced s) = Inr (0, JObject [])"
  using assms by (simp add: benchmark_humanization_value)

theorem invalid_json_body_is_failure_witness:
  "outcome (env_invalid_json (length (sent default_state)))
      = Responds \<lparr>status_code = 200, body_json = None\<rparr>
   \<and> clock_after (env_invalid_json (length (sent default_state)))
       - clock_before (env_invalid_json (length (sent default_state))) = 2
   \<and> fst (benchmark_humanization env_invalid_json text_short ''short'' False default_state)
      = Inr (0, JObject [])
   \<and> fst (benchmark_humanization env_refused text_short ''short'' False default_state)
      = Inr (0, JObject [])"
proof -
  have h: "outcome (env_invalid_json (length (sent default_state)))
      = Responds \<lparr>status_code = 200, body_json = None\<rparr>"
    by (simp add: env_invalid_json_def answers_def)
  have d: "clock_after (env_invalid_json (length (sent default_state)))
       - clock_before (env_invalid_json (length (sent default_state))) = 2"
    by (simp add: env_invalid_json_def answers_def)
  have h': "outcome (env_refused (length (sent default_state))) = Raises ConnectionError"
    by (simp add: env_refused_def fails_def)
  from invalid_json_body_is_failure [of env_invalid_json default_state
      "\<lparr>status_code = 200, body_json = None\<rparr>" env_refused text_short "''short''" False] h h' d
  show ?thesis by simp
qed

text \<open>
  Claim C10. A response with status 200 whose decoded body is a JSON object without the
  key \<^verbatim>\<open>statistics\<close> takes the success path: the call returns the measured time
  with the empty mapping, the default of \<^verbatim>\<open>data.get("statistics", {})\<close>.
\<close>

theorem missing_statistics_key:
  assumes "outcome (env (length (sent s))) = Responds r"
    and "status_code r = 200" and "body_json r = Some (JObject kvs)"
    and "''statistics'' \<notin> fst ` set kvs"
  shows "fst (benchmark_humanization env body name enhanced s) =
     Inr (clock_after (env (length (sent s))) - clock_before (env (length (sent s))), JObject [])"
proof -
  from assms(4) have "map_of kvs ''statistics'' = None"
    by (simp add: map_of_eq_None_iff)
  with assms(1-3) show ?thesis
    by (simp add: benchmark_humanization_value)
qed

theorem missing_statistics_key_witness:
  "outcome (env_no_stats (length (sent default_state)))
      = Responds \<lparr>status_code = 200,
           body_json = Some (JObject [(''humanized_text'', JString ''Hi'')])\<rparr>
   \<and> ''statistics'' \<notin> fst ` set [(''humanized_text'', JString ''Hi'')]
   \<and> fst (benchmark_humanization env_no_stats text_short ''short'' True default_state)
      = Inr (2, JObject [])"
proof -
  have h: "outcome (env_no_stats (length (sent default_state)))
      = Responds \<lparr>status_code = 200,
           body_json = Some (JObject [(''humanized_text'', JString ''Hi'')])\<rparr>"
    by (simp add: env_no_stats_def answers_def)
  have k: "''statistics'' \<notin> fst ` set [(''humanized_text'', JString ''Hi'')]"
    by simp
  have d: "clock_after (env_no_stats (length (sent default_state)))
       - clock_before (env_no_stats (length (sent default_state))) = 2"
    by (simp add: env_no_stats_def answers_def)
  from missing_statistics_key [of env_no_stats default_state
      "\<lparr>status_code = 200, body_json = Some (JObject [(''humanized_text'', JString ''Hi'')])\<rparr>"
      "[(''humanized_text'', JString ''Hi'')]" text_short "''short''" True] h k d
  show ?thesis by simp
qed

text \<open>
  Claim C3 says that every response with status 200 yields the measured time with the
  decoded statistics. At a 200 response whose body is not JSON the call returns 0.0, not
  the two seconds measured.
\<close>

theorem success_with_invalid_json_counterexample:
  "outcome (env_invalid_json (length (sent default_state)))
      = Responds \<lparr>status_code = 200, body_json = None\<rparr>
   \<and> clock_after (env_invalid_json (length (sent default_state)))
       - clock_before (env_invalid_json (length (sent default_state))) = 2
   \<and> fst (benchmark_humanization env_invalid_json text_short ''short'' False default_state)
      = Inr (0, JObject [])"
  by (simp add: benchmark_humanization_value env_invalid_json_def answers_def)

text \<open>
  Claim C3, amended. The timed call always returns a result and never raises. On a 200
  response whose body decodes to a JSON object it returns the measured time with the
  value stored under \<^verbatim>\<open>statistics\<close> (the empty mapping when the key is absent); on
  a 200 response whose body does not decode to a JSON object it returns 0.0 with the
  empty mapping; on any other status it returns the measured time with the empty mapping;
  on a timeout it returns 60.0 with the empty mapping; on any other exception it returns
  0.0 with the empty mapping.
\<close>

theorem call_outcomes:
  "(\<exists>t st s'. benchmark_humanization env body name enhanced s = (Inr (t, st), s'))
   \<and> (\<forall>r kvs. outcome (env (length (sent s))) = Responds r \<and> status_code r = 200
          \<and> body_json r = Some (JObject kvs) \<longrightarrow>
        fst (benchmark_humanization env body name enhanced s) =
          Inr (clock_after (env (length (sent s))) - clock_before (env (length (sent s))),
               case map_of kvs ''statistics'' of None \<Rightarrow> JObject [] | Some v \<Rightarrow> v))
   \<and> (\<forall>r. outcome (env (length (sent s))) = Responds r \<and> status_code r = 200
          \<and> (\<forall>kvs. body_json r \<noteq> Some (JObject kvs)) \<longrightarrow>
        fst (benchmark_humanization env body name enhanced s) = Inr (0, JObject []))
   \<and> (\<forall>r. outcome (env (length (sent s))) = Responds r \<and> status_code r \<noteq> 200 \<longrightarrow>
        fst (benchmark_humanization env body name enhanced s) =
          Inr (clock_after (env (length (sent s))) - clock_before (env (length (sent s))),
               JObject []))
   \<and> (outcome (env (length (sent s))) = Raises Timeout \<longrightarrow>
        fst (benchmark_humanization env body name enhanced s) = Inr (60, JObject []))
   \<and> (\<forall>e. outcome (env (length (sent s))) = Raises e \<and> e \<noteq> Timeout \<longrightarrow>
        fst (benchmark_humanization env body name enhanced s) = Inr (0, JObject []))"
proof -
  have "\<exists>t st s'. benchmark_humanization env body name enhanced s = (Inr (t, st), s')"
    by (rule benchmark_humanization_returns)
  moreover have "\<forall>r. outcome (env (length (sent s))) = Responds r \<and> status_code r = 200
          \<and> (\<forall>kvs. body_json r \<noteq> Some (JObject kvs)) \<longrightarrow>
        fst (benchmark_humanization env body name enhanced s) = Inr (0, JObject [])"
    by (auto simp: benchmark_humanization_value split: option.splits json.splits)
  ultimately show ?thesis
    by (simp add: benchmark_humanization_value)
qed

theorem call_outcomes_witness:
  "fst (benchmark_humanization env_with_stats text_short ''short'' False default_state)
     = Inr (2, JObject [(''original_length'', JNumber 125), (''final_length'', JNumber 131)])
   \<and> fst (benchmark_humanization env_json_array text_short ''short'' False default_state)
     = Inr (0, JObject [])
   \<and> fst (benchmark_humanization env_unavailable text_short ''short'' False default_state)
     = Inr (1, JObject [])
   \<and> fst (benchmark_humanization env_timeout text_short ''short'' False default_state)
     = Inr (60, JObject [])
   \<and> fst (benchmark_humanization env_refused text_short ''short'' False default_state)
     = Inr (0, JObject [])"
proof -
  note c = call_outcomes [of _ text_short "''short''" False default_state]
  have "fst (benchmark_humanization env_with_stats text_short ''short'' False default_state)
     = Inr (2, JObject [(''original_length'', JNumber 125), (''final_length'', JNumber 131)])"
    using c [of env_with_stats] by (simp add: env_with_stats_def answers_def)
  moreover
  have "fst (benchmark_humanization env_json_array text_short ''short'' False default_state)
     = Inr (0, JObject [])"
    using c [of env_json_array] by (simp add: env_json_array_def answers_def)
  moreover
  have "fst (benchmark_humanization env_unavailable text_short ''short'' False default_state)
     = Inr (1, JObject [])"
    using c [of env_unavailable] by (simp add: env_unavailable_def answers_def)
  moreover
  have "fst (benchmark_humanization env_timeout text_short ''short'' False default_state)
     = Inr (60, JObject [])"
    using c [of env_timeout] by (simp add: env_timeout_def fails_def)
  moreover
  have "fst (benchmark_humanization env_refused text_short ''short'' False default_state)
     = Inr (0, JObject [])"
    using c [of env_refused] by (simp add: env_refused_def fails_def)
  ultimately show ?thesis by simp
qed


section \<open>The summary\<close>

lemma print_rows_value:
  "print_rows rs s = (Inr (), s\<lparr>console := console s @
      map (\<lambda>r. TableRow (size_r r) (length_r r) (fast_mode r) (enhanced_mode r)
                 (if fast_mode r > 0 then enhanced_mode r / fast_mode r else 1)) rs\<rparr>)"
  by (induction rs arbitrary: s) (simp_all add: speedup_of_value print_line_def Let_def)

lemma print_summary_value:
  "print_summary s = (Inr (), s\<lparr>console := console s
      @ [Rule, SummaryTitle, Rule, TableHeader, Dashes]
      @ map (\<lambda>r. TableRow (size_r r) (length_r r) (fast_mode r) (enhanced_mode r)
                 (if fast_mode r > 0 then enhanced_mode r / fast_mode r else 1)) (results s)
      @ [Dashes,
         TotalRow (\<Sum>r\<leftarrow>results s. fast_mode r) (\<Sum>r\<leftarrow>results s. enhanced_mode r)
           (if (\<Sum>r\<leftarrow>results s. fast_mode r) > 0
            then (\<Sum>r\<leftarrow>results s. enhanced_mode r) / (\<Sum>r\<leftarrow>results s. fast_mode r) else 1),
         RecommendationHeader,
         RecommendFast
           (if (\<Sum>r\<leftarrow>results s. fast_mode r) > 0
            then (\<Sum>r\<leftarrow>results s. enhanced_mode r) / (\<Sum>r\<leftarrow>results s. fast_mode r) else 1),
         RecommendEnhanced, BenchmarkComplete]\<rparr>)"
  by (simp add: print_summary_def print_rows_value speedup_of_value print_lines_def Let_def)

text \<open>
  Claim C1. The summary never raises, whatever the recorded times are (the division is
  taken only when the fast time is strictly positive), and it prints one row per record,
  in order, whose speedup is the enhanced time divided by the fast time when the fast
  time is strictly positive and 1 otherwise.
\<close>

theorem summary_rows:
  "fst (print_summary s) = Inr ()
   \<and> (\<exists>rest. console (snd (print_summary s)) =
         console s @ [Rule, SummaryTitle, Rule, TableHeader, Dashes]
         @ map (\<lambda>r. TableRow (size_r r) (length_r r) (fast_mode r) (enhanced_mode r)
                   (if fast_mode r > 0 then enhanced_mode r / fast_mode r else 1)) (results s)
         @ rest)"
  by (simp add: print_summary_value)

theorem summary_rows_witness:
  "fst (print_summary all_zero_state) = Inr ()
   \<and> take 7 (console (snd (print_summary all_zero_state))) =
       [Rule, SummaryTitle, Rule, TableHeader, Dashes,
        TableRow ''short'' 125 0 0 1, TableRow ''medium'' 457 0 0 1]"
proof -
  from summary_rows [of all_zero_state] obtain rest where
    "fst (print_summary all_zero_state) = Inr ()"
    "console (snd (print_summary all_zero_state)) =
         console all_zero_state @ [Rule, SummaryTitle, Rule, TableHeader, Dashes]
         @ map (\<lambda>r. TableRow (size_r r) (length_r r) (fast_mode r) (enhanced_mode r)
                   (if fast_mode r > 0 then enhanced_mode r / fast_mode r else 1))
               (results all_zero_state)
         @ rest"
    by blast
  then show ?thesis
    by (simp add: all_zero_state_def default_state_def init_def)
qed

text \<open>
  Claim C2. After the rows, the summary prints the totals: the sum of the fast times of
  all records, the sum of their enhanced times, and the overall speedup, which is the
  enhanced total divided by the fast total when the fast total is strictly positive and
  1 otherwise.
\<close>

theorem summary_totals:
  "\<exists>rows. length rows = length (results s)
     \<and> console (snd (print_summary s)) =
         console s @ [Rule, SummaryTitle, Rule, TableHeader, Dashes] @ rows
         @ [Dashes,
            TotalRow (\<Sum>r\<leftarrow>results s. fast_mode r) (\<Sum>r\<leftarrow>results s. enhanced_mode r)
              (if (\<Sum>r\<leftarrow>results s. fast_mode r) > 0
               then (\<Sum>r\<leftarrow>results s. enhanced_mode r) / (\<Sum>r\<leftarrow>results s. fast_mode r)
               else 1),
            RecommendationHeader,
            RecommendFast
              (if (\<Sum>r\<leftarrow>results s. fast_mode r) > 0
               then (\<Sum>r\<leftarrow>results s. enhanced_mode r) / (\<Sum>r\<leftarrow>results s. fast_mode r)
               else 1),
            RecommendEnhanced, BenchmarkComplete]"
  unfolding print_summary_value
  by (intro exI [where x = "map (\<lambda>r. TableRow (size_r r) (length_r r) (fast_mode r)
         (enhanced_mode r) (if fast_mode r > 0 then enhanced_mode r / fast_mode r else 1))
         (results s)"]) simp

theorem summary_totals_witness:
  "rev (console (snd (print_summary one_two_state))) ! 4 = TotalRow 1 2 2
   \<and> rev (console (snd (print_summary all_zero_state))) ! 4 = TotalRow 0 0 1"
proof -
  have "rev (console (snd (print_summary one_two_state))) ! 4 = TotalRow 1 2 2"
    using summary_totals [of one_two_state]
    by (auto simp: one_two_state_def default_state_def init_def)
  moreover have "rev (console (snd (print_summary all_zero_state))) ! 4 = TotalRow 0 0 1"
    using summary_totals [of all_zero_state]
    by (auto simp: all_zero_state_def default_state_def init_def)
  ultimately show ?thesis by simp
qed

section \<open>The availability check\<close>

lemma check_server_console:
  "fst (check_server env (print_lines es s)) = fst (check_server env s)"
  by (simp add: check_server_def send_def print_lines_def split: outcome.splits)

text \<open>
  Claim C6 says that the availability check never raises. Its handler names two exception
  classes only; any other exception of the request, such as the one for a base URL without
  a scheme, leaves \<^verbatim>\<open>check_server\<close> as an exception.
\<close>

theorem check_server_raises_counterexample:
  "fst (check_server env_bad_url default_state) = Inl RequestException"
  by (simp add: check_server_def send_def env_bad_url_def fails_def)

text \<open>
  Claim C6, amended. The availability check issues one GET request to the health path
  with a timeout of 5 seconds. It returns true exactly when that request is answered with
  status 200; it returns false on a connection failure, on a timeout and on any other
  status; an exception of the request that is neither a connection failure nor a timeout
  is raised to the caller.
\<close>

theorem check_server_result:
  "sent (snd (check_server env s)) = sent s @
      [\<lparr>http_method = GET, url = base_url s @ ''/health'', json_payload = None, timeout = 5\<rparr>]
   \<and> (fst (check_server env s) = Inr True \<longleftrightarrow>
        (\<exists>r. outcome (env (length (sent s))) = Responds r \<and> status_code r = 200))
   \<and> (outcome (env (length (sent s))) = Raises ConnectionError
        \<or> outcome (env (length (sent s))) = Raises Timeout
        \<or> (\<exists>r. outcome (env (length (sent s))) = Responds r \<and> status_code r \<noteq> 200)
       \<longrightarrow> fst (check_server env s) = Inr False)
   \<and> (\<forall>e. outcome (env (length (sent s))) = Raises e \<and> e \<noteq> ConnectionError \<and> e \<noteq> Timeout
       \<longrightarrow> fst (check_server env s) = Inl e)"
  by (auto simp: check_server_def send_def split: outcome.splits)

theorem check_server_result_witness:
  "fst (check_server env_with_stats default_state) = Inr True
   \<and> fst (check_server env_unavailable default_state) = Inr False
   \<and> fst (check_server env_refused default_state) = Inr False
   \<and> fst (check_server env_timeout default_state) = Inr False
   \<and> fst (check_server env_bad_url default_state) = Inl RequestException"
proof -
  note c = check_server_result [of _ default_state]
  have "fst (check_server env_with_stats default_state) = Inr True"
    using c [of env_with_stats] by (simp add: env_with_stats_def answers_def)
  moreover have "fst (check_server env_unavailable default_state) = Inr False"
    using c [of env_unavailable] by (simp add: env_unavailable_def answers_def)
  moreover have "fst (check_server env_refused default_state) = Inr False"
    using c [of env_refused] by (simp add: env_refused_def fails_def)
  moreover have "fst (check_server env_timeout default_state) = Inr False"
    using c [of env_timeout] by (simp add: env_timeout_def fails_def)
  moreover have "fst (check_server env_bad_url default_state) = Inl RequestException"
    using c [of env_bad_url] by (simp add: env_bad_url_def fails_def)
  ultimately show ?thesis by simp
qed

text \<open>
  Claim C7. When the availability check returns false, the run issues no request other
  than the health check, appends no record, prints no summary, reports that the server is
  not running, and returns.
\<close>

theorem unavailable_stops:
  assumes "fst (check_server env s) = Inr False"
  shows "fst (run_benchmark env s) = Inr ()
    \<and> sent (snd (run_benchmark env s)) = sent s @
        [\<lparr>http_method = GET, url = base_url s @ ''/health'', json_payload = None, timeout = 5\<rparr>]
    \<and> results (snd (run_benchmark env s)) = results s
    \<and> console (snd (run_benchmark env s)) = console s @
        [Rule, Title, Rule, CheckingServer, ServerNotRunning, StartHint]"
proof -
  let ?s1 = "print_lines [Rule, Title, Rule, CheckingServer] s"
  obtain s2 where c: "check_server env ?s1 = (Inr False, s2)"
    using assms check_server_console [of env "[Rule, Title, Rule, CheckingServer]" s]
    by (cases "check_server env ?s1") simp
  then have s2: "s2 = ?s1\<lparr>sent := sent ?s1 @
     [\<lparr>http_method = GET, url = base_url ?s1 @ ''/health'', json_payload = None, timeout = 5\<rparr>]\<rparr>"
    by (auto simp: check_server_def send_def split: outcome.splits if_splits)
  from c have "run_benchmark env s = (Inr (), print_lines [ServerNotRunning, StartHint] s2)"
    by (simp add: run_benchmark_def Let_def)
  with s2 show ?thesis
    by (simp add: print_lines_def)
qed

theorem unavailable_stops_witness:
  "fst (check_server env_refused default_state) = Inr False
   \<and> fst (run_benchmark env_refused default_state) = Inr ()
   \<and> sent (snd (run_benchmark env_refused default_state)) =
        [\<lparr>http_method = GET, url = ''http://localhost:5000/health'', json_payload = None,
          timeout = 5\<rparr>]
   \<and> results (snd (run_benchmark env_refused default_state)) = []
   \<and> console (snd (run_benchmark env_refused default_state)) =
        [Rule, Title, Rule, CheckingServer, ServerNotRunning, StartHint]"
proof -
  have h: "fst (check_server env_refused default_state) = Inr False"
    by (simp add: check_server_def send_def env_refused_def fails_def)
  from unavailable_stops [OF h] h show ?thesis
    by (simp add: default_state_def init_def)
qed


section \<open>The sweep\<close>

lemma run_text_sent:
  assumes k: "map_of TEST_TEXTS k = Some body" and run: "run_text env k s = (r, s')"
  shows "(r \<noteq> Inr () \<and> sent s' = sent s @ [humanize_request (base_url s) body False])
       \<or> sent s' = sent s @ [humanize_request (base_url s) body False,
                                humanize_request (base_url s) body True]"
proof -
  let ?s1 = "print_lines [Rule, TestingText k (length body), Rule, ModeFast] s"
  from run_text_cases [OF k run] obtain tf stf s2 r3 s3 where
    c1: "benchmark_humanization env body k False ?s1 = (Inr (tf, stf), s2)"
    and c2: "print_time_stats tf stf s2 = (r3, s3)"
    and rest: "case r3 of
          Inl e \<Rightarrow> r = Inl e \<and> s' = s3
        | Inr u \<Rightarrow> (\<exists>te ste s4 r5 s5.
            benchmark_humanization env body k True (print_line ModeEnhanced s3)
               = (Inr (te, ste), s4)
            \<and> print_time_stats te ste s4 = (r5, s5)
            \<and> (case r5 of
                 Inl e \<Rightarrow> r = Inl e \<and> s' = s5
               | Inr u' \<Rightarrow> r = Inr () \<and> base_url s' = base_url s5 \<and> sent s' = sent s5
                    \<and> results s' = results s5 @
                        [\<lparr>size_r = k, length_r = length body,
                          fast_mode = tf, enhanced_mode = te\<rparr>]))"
    by blast
  have s3: "sent s3 = sent s @ [humanize_request (base_url s) body False]"
       "base_url s3 = base_url s"
    using benchmark_humanization_frame(2,3) [OF c1] print_time_stats_frame(2,3) [OF c2]
    by (simp_all add: print_lines_def)
  show ?thesis
  proof (cases r3)
    case (Inl e)
    with rest s3 show ?thesis by simp
  next
    case (Inr u)
    with rest obtain te ste s4 r5 s5 where
      c3: "benchmark_humanization env body k True (print_line ModeEnhanced s3)
               = (Inr (te, ste), s4)"
      and c4: "print_time_stats te ste s4 = (r5, s5)"
      and fin: "case r5 of
                 Inl e \<Rightarrow> r = Inl e \<and> s' = s5
               | Inr u' \<Rightarrow> r = Inr () \<and> base_url s' = base_url s5 \<and> sent s' = sent s5
                    \<and> results s' = results s5 @
                        [\<lparr>size_r = k, length_r = length body,
                          fast_mode = tf, enhanced_mode = te\<rparr>]"
      by auto
    have "sent s5 = sent s @ [humanize_request (base_url s) body False,
                                humanize_request (base_url s) body True]"
      using benchmark_humanization_frame(3) [OF c3] print_time_stats_frame(3) [OF c4] s3
      by (simp add: print_line_def)
    with fin show ?thesis by (cases r5) simp_all
  qed
qed

text \<open>
  Claim C8. Every timed call sends exactly one request: a POST to the path
  \<^verbatim>\<open>/humanize\<close> under the base URL, with a timeout of 60 seconds and a JSON body
  whose keys are \<^verbatim>\<open>text\<close> (the sample text), \<^verbatim>\<open>paraphrasing\<close> (true) and
  \<^verbatim>\<open>enhanced\<close> (the mode flag). In one iteration of the sweep the first call, the
  fast one, carries the flag false and the second, the enhanced one, carries it true; the
  second call is missing only when the iteration stops with an exception after the first.
\<close>

theorem humanize_requests:
  assumes "map_of TEST_TEXTS k = Some body"
  shows "sent (snd (benchmark_humanization env t name enhanced s))
           = sent s @ [humanize_request (base_url s) t enhanced]
     \<and> (sent (snd (run_text env k s)) = sent s @ [humanize_request (base_url s) body False]
          \<and> fst (run_text env k s) \<noteq> Inr ()
        \<or> sent (snd (run_text env k s)) = sent s @ [humanize_request (base_url s) body False,
                                                    humanize_request (base_url s) body True])"
proof -
  have "sent (snd (benchmark_humanization env t name enhanced s))
           = sent s @ [humanize_request (base_url s) t enhanced]"
    using benchmark_humanization_frame(3) [of env t name enhanced s]
    by (cases "benchmark_humanization env t name enhanced s") simp
  moreover from run_text_sent [OF assms, of env s]
  have "sent (snd (run_text env k s)) = sent s @ [humanize_request (base_url s) body False]
          \<and> fst (run_text env k s) \<noteq> Inr ()
        \<or> sent (snd (run_text env k s)) = sent s @ [humanize_request (base_url s) body False,
                                                    humanize_request (base_url s) body True]"
    by (cases "run_text env k s") auto
  ultimately show ?thesis by simp
qed

theorem humanize_requests_witness:
  "map_of TEST_TEXTS ''short'' = Some text_short
   \<and> sent (snd (benchmark_humanization env_with_stats ''Hello'' ''short'' True default_state))
      = [\<lparr>http_method = POST, url = ''http://localhost:5000/humanize'',
          json_payload = Some (JObject [(''text'', JString ''Hello''),
             (''paraphrasing'', JBool True), (''enhanced'', JBool True)]),
          timeout = 60\<rparr>]
   \<and> sent (snd (run_text env_with_stats ''short'' default_state))
      = [\<lparr>http_method = POST, url = ''http://localhost:5000/humanize'',
          json_payload = Some (JObject [(''text'', JString text_short),
             (''paraphrasing'', JBool True), (''enhanced'', JBool False)]),
          timeout = 60\<rparr>,
         \<lparr>http_method = POST, url = ''http://localhost:5000/humanize'',
          json_payload = Some (JObject [(''text'', JString text_short),
             (''paraphrasing'', JBool True), (''enhanced'', JBool True)]),
          timeout = 60\<rparr>]"
proof -
  have k: "map_of TEST_TEXTS ''short'' = Some text_short"
    by (simp add: TEST_TEXTS_def)
  have ok: "fst (run_text env_with_stats ''short'' default_state) = Inr ()"
    by (simp add: run_text_def TEST_TEXTS_def benchmark_humanization_def humanize_try_def
          send_def print_lines_def print_line_def print_time_stats_def speedup_of_value
          env_with_stats_def answers_def default_state_def init_def Let_def)
  from humanize_requests [OF k, of env_with_stats "''Hello''" "''short''" True default_state]
    k ok
  show ?thesis
    by (simp add: default_state_def init_def)
qed


lemma elapsed_bounds:
  assumes env: "\<forall>n. clock_before (env n) \<le> clock_after (env n)
                  \<and> clock_after (env n) - clock_before (env n) \<le> 60"
    and r: "benchmark_humanization env body name enhanced s = (Inr (t, st), s')"
  shows "0 \<le> t \<and> t \<le> 60"
proof -
  from env have b: "0 \<le> clock_after (env (length (sent s))) - clock_before (env (length (sent s)))"
     "clock_after (env (length (sent s))) - clock_before (env (length (sent s))) \<le> 60"
    by simp_all
  from r have "fst (benchmark_humanization env body name enhanced s) = Inr (t, st)" by simp
  then show ?thesis using b
    unfolding benchmark_humanization_value
    by (auto split: outcome.splits option.splits json.splits if_splits)
qed

lemma run_text_bounded:
  assumes env: "\<forall>n. clock_before (env n) \<le> clock_after (env n)
                  \<and> clock_after (env n) - clock_before (env n) \<le> 60"
    and run: "run_text env k s = (r, s')"
  shows "\<exists>new. results s' = results s @ new
     \<and> (\<forall>a\<in>set new. 0 \<le> fast_mode a \<and> fast_mode a \<le> 60
                     \<and> 0 \<le> enhanced_mode a \<and> enhanced_mode a \<le> 60)"
proof (cases "map_of TEST_TEXTS k")
  case None
  with run have "s' = s" by (simp add: run_text_def)
  then show ?thesis by simp
next
  case (Some body)
  let ?s1 = "print_lines [Rule, TestingText k (length body), Rule, ModeFast] s"
  from run_text_cases [OF Some run] obtain tf stf s2 r3 s3 where
    c1: "benchmark_humanization env body k False ?s1 = (Inr (tf, stf), s2)"
    and c2: "print_time_stats tf stf s2 = (r3, s3)"
    and rest: "case r3 of
          Inl e \<Rightarrow> r = Inl e \<and> s' = s3
        | Inr u \<Rightarrow> (\<exists>te ste s4 r5 s5.
            benchmark_humanization env body k True (print_line ModeEnhanced s3)
               = (Inr (te, ste), s4)
            \<and> print_time_stats te ste s4 = (r5, s5)
            \<and> (case r5 of
                 Inl e \<Rightarrow> r = Inl e \<and> s' = s5
               | Inr u' \<Rightarrow> r = Inr () \<and> base_url s' = base_url s5 \<and> sent s' = sent s5
                    \<and> results s' = results s5 @
                        [\<lparr>size_r = k, length_r = length body,
                          fast_mode = tf, enhanced_mode = te\<rparr>]))"
    by blast
  have s3: "results s3 = results s"
    using benchmark_humanization_frame(1) [OF c1] print_time_stats_frame(1) [OF c2]
    by (simp add: print_lines_def)
  show ?thesis
  proof (cases r3)
    case (Inl e)
    with rest s3 show ?thesis by simp
  next
    case (Inr u)
    with rest obtain te ste s4 r5 s5 where
      c3: "benchmark_humanization env body k True (print_line ModeEnhanced s3)
               = (Inr (te, ste), s4)"
      and c4: "print_time_stats te ste s4 = (r5, s5)"
      and fin: "case r5 of
                 Inl e \<Rightarrow> r = Inl e \<and> s' = s5
               | Inr u' \<Rightarrow> r = Inr () \<and> base_url s' = base_url s5 \<and> sent s' = sent s5
                    \<and> results s' = results s5 @
                        [\<lparr>size_r = k, length_r = length body,
                          fast_mode = tf, enhanced_mode = te\<rparr>]"
      by auto
    have s5: "results s5 = results s"
      using benchmark_humanization_frame(1) [OF c3] print_time_stats_frame(1) [OF c4] s3
      by (simp add: print_line_def)
    from elapsed_bounds [OF env c1] elapsed_bounds [OF env c3] fin s5
    show ?thesis by (cases r5) simp_all
  qed
qed

lemma run_texts_bounded:
  assumes env: "\<forall>n. clock_before (env n) \<le> clock_after (env n)
                  \<and> clock_after (env n) - clock_before (env n) \<le> 60"
  shows "\<exists>new. results (snd (run_texts env ks s)) = results s @ new
     \<and> (\<forall>a\<in>set new. 0 \<le> fast_mode a \<and> fast_mode a \<le> 60
                     \<and> 0 \<le> enhanced_mode a \<and> enhanced_mode a \<le> 60)"
proof (induction ks arbitrary: s)
  case Nil
  show ?case by simp
next
  case (Cons k ks)
  obtain r s1 where run: "run_text env k s = (r, s1)"
    by (cases "run_text env k s")
  from run_text_bounded [OF env run] obtain new1 where
    n1: "results s1 = results s @ new1"
      "\<forall>a\<in>set new1. 0 \<le> fast_mode a \<and> fast_mode a \<le> 60
                     \<and> 0 \<le> enhanced_mode a \<and> enhanced_mode a \<le> 60"
    by blast
  show ?case
  proof (cases r)
    case (Inl e)
    with run n1 show ?thesis by auto
  next
    case (Inr u)
    from Cons.IH [of s1] obtain new2 where
      n2: "results (snd (run_texts env ks s1)) = results s1 @ new2"
        "\<forall>a\<in>set new2. 0 \<le> fast_mode a \<and> fast_mode a \<le> 60
                     \<and> 0 \<le> enhanced_mode a \<and> enhanced_mode a \<le> 60"
      by blast
    from run Inr have "run_texts env (k # ks) s = run_texts env ks s1" by simp
    with n1 n2 have "results (snd (run_texts env (k # ks) s)) = results s @ (new1 @ new2)"
      by simp
    moreover from n1 n2 have "\<forall>a\<in>set (new1 @ new2). 0 \<le> fast_mode a \<and> fast_mode a \<le> 60
                     \<and> 0 \<le> enhanced_mode a \<and> enhanced_mode a \<le> 60"
      by auto
    ultimately show ?thesis by blast
  qed
qed

lemma check_server_results:
  "results (snd (check_server env s)) = results s"
  by (simp add: check_server_def send_def split: outcome.splits)

lemma print_summary_results:
  "results (snd (print_summary s)) = results s"
  by (simp add: print_summary_value)

text \<open>
  Claim C4 bounds every recorded time by 0 and 60. The recorded time of an answered call is
  the difference of two readings of the wall clock, which the code does not clamp: a
  response that arrives after 61 seconds (the timeout of the request bounds each phase of
  the exchange, not its total) is recorded as 61, and a clock that is set back by one
  second during the call gives -1.
\<close>

theorem elapsed_out_of_bounds_counterexample:
  "fast_mode (hd (results (snd (run_benchmark env_slow default_state)))) = 61
   \<and> enhanced_mode (hd (results (snd (run_benchmark env_clock_set_back default_state)))) = - 1"
  by (simp add: run_benchmark_def check_server_def send_def print_lines_def print_line_def
       default_state_def init_def env_slow_def env_clock_set_back_def answers_def
       run_text_def TEST_TEXTS_def benchmark_humanization_def
       humanize_try_def print_time_stats_def speedup_of_value print_summary_value Let_def)

text \<open>
  Claim C4, amended. Provided that around every call the clock reading after it is not
  below the reading before it and exceeds it by at most 60 seconds, every record that a
  run appends has both elapsed times between 0 and 60. (A call that times out records
  exactly 60.0 and a call that fails otherwise exactly 0.0, whatever the clock says.)
\<close>

theorem elapsed_bounds_of_run:
  assumes "\<forall>n. clock_before (env n) \<le> clock_after (env n)
              \<and> clock_after (env n) - clock_before (env n) \<le> 60"
  shows "\<exists>new. results (snd (run_benchmark env s)) = results s @ new
     \<and> (\<forall>a\<in>set new. 0 \<le> fast_mode a \<and> fast_mode a \<le> 60
                     \<and> 0 \<le> enhanced_mode a \<and> enhanced_mode a \<le> 60)"
proof -
  let ?s1 = "print_lines [Rule, Title, Rule, CheckingServer] s"
  obtain c s2 where chk: "check_server env ?s1 = (c, s2)"
    by (cases "check_server env ?s1")
  have r2: "results s2 = results s"
    using check_server_results [of env ?s1] chk by (simp add: print_lines_def)
  let ?s3 = "print_line ServerRunning s2"
  from run_texts_bounded [OF assms, of "[''short'', ''medium'', ''long'']" ?s3] r2
  obtain new where n: "results (snd (run_texts env [''short'', ''medium'', ''long''] ?s3))
        = results s @ new"
     "\<forall>a\<in>set new. 0 \<le> fast_mode a \<and> fast_mode a \<le> 60
                     \<and> 0 \<le> enhanced_mode a \<and> enhanced_mode a \<le> 60"
    by (auto simp: print_line_def)
  have "results (snd (run_benchmark env s)) = results s
      \<or> results (snd (run_benchmark env s)) = results s @ new"
    using chk r2 n(1)
    by (auto simp: run_benchmark_def Let_def print_lines_def print_summary_results
          split: sum.splits prod.splits)
  then show ?thesis
  proof
    assume "results (snd (run_benchmark env s)) = results s"
    then have "results (snd (run_benchmark env s)) = results s @ []
       \<and> (\<forall>a\<in>set []. 0 \<le> fast_mode a \<and> fast_mode a \<le> 60
                     \<and> 0 \<le> enhanced_mode a \<and> enhanced_mode a \<le> 60)" by simp
    then show ?thesis by blast
  next
    assume "results (snd (run_benchmark env s)) = results s @ new"
    with n(2) show ?thesis by blast
  qed
qed

theorem elapsed_bounds_of_run_witness:
  "(\<forall>n. clock_before (env_one_two n) \<le> clock_after (env_one_two n)
        \<and> clock_after (env_one_two n) - clock_before (env_one_two n) \<le> 60)
   \<and> results (snd (run_benchmark env_one_two default_state)) =
       [\<lparr>size_r = ''short'', length_r = 125, fast_mode = 1, enhanced_mode = 2\<rparr>,
        \<lparr>size_r = ''medium'', length_r = 457, fast_mode = 1, enhanced_mode = 2\<rparr>,
        \<lparr>size_r = ''long'', length_r = 1299, fast_mode = 1, enhanced_mode = 2\<rparr>]
   \<and> list_all (\<lambda>a. 0 \<le> fast_mode a \<and> fast_mode a \<le> 60
                     \<and> 0 \<le> enhanced_mode a \<and> enhanced_mode a \<le> 60)
        (results (snd (run_benchmark env_one_two default_state)))"
proof -
  have h: "\<forall>n. clock_before (env_one_two n) \<le> clock_after (env_one_two n)
        \<and> clock_after (env_one_two n) - clock_before (env_one_two n) \<le> 60"
    by (simp add: env_one_two_def answers_def)
  have e: "results (snd (run_benchmark env_one_two default_state)) =
       [\<lparr>size_r = ''short'', length_r = 125, fast_mode = 1, enhanced_mode = 2\<rparr>,
        \<lparr>size_r = ''medium'', length_r = 457, fast_mode = 1, enhanced_mode = 2\<rparr>,
        \<lparr>size_r = ''long'', length_r = 1299, fast_mode = 1, enhanced_mode = 2\<rparr>]"
    by (simp add: run_benchmark_def check_server_def send_def print_lines_def print_line_def
       default_state_def init_def env_one_two_def answers_def
       run_text_def TEST_TEXTS_def benchmark_humanization_def
       humanize_try_def print_time_stats_def speedup_of_value print_summary_value Let_def
       text_lengths)
  from elapsed_bounds_of_run [OF h, of default_state] obtain new where
    "results (snd (run_benchmark env_one_two default_state)) = results default_state @ new"
    "\<forall>a\<in>set new. 0 \<le> fast_mode a \<and> fast_mode a \<le> 60
                     \<and> 0 \<le> enhanced_mode a \<and> enhanced_mode a \<le> 60"
    by blast
  then have "list_all (\<lambda>a. 0 \<le> fast_mode a \<and> fast_mode a \<le> 60
                     \<and> 0 \<le> enhanced_mode a \<and> enhanced_mode a \<le> 60)
        (results (snd (run_benchmark env_one_two default_state)))"
    by (simp add: default_state_def init_def list_all_iff)
  with h e show ?thesis by simp
qed

lemma returned_statistics:
  assumes "mapping_statistics env"
    and "benchmark_humanization env body name enhanced s = (Inr (t, st), s')"
  shows "mapping_or_falsy st"
proof -
  from assms(2) have "fst (benchmark_humanization env body name enhanced s) = Inr (t, st)"
    by simp
  then have "st = JObject [] \<or> (\<exists>r kvs. outcome (env (length (sent s))) = Responds r
       \<and> body_json r = Some (JObject kvs) \<and> map_of kvs ''statistics'' = Some st)"
    unfolding benchmark_humanization_value
    by (auto split: outcome.splits option.splits json.splits if_splits)
  with assms(1) show ?thesis
    unfolding mapping_statistics_def by (auto simp: mapping_or_falsy_def)
qed

lemma print_time_stats_returns:
  assumes "mapping_or_falsy st"
  shows "\<exists>s'. print_time_stats t st s = (Inr (), s')"
  using assms
  by (cases st) (auto simp: print_time_stats_def mapping_or_falsy_def Let_def)

lemma run_text_complete:
  assumes env: "mapping_statistics env" and k: "map_of TEST_TEXTS k = Some body"
  shows "\<exists>s' tf te. run_text env k s = (Inr (), s')
     \<and> results s' = results s @
         [\<lparr>size_r = k, length_r = length body, fast_mode = tf, enhanced_mode = te\<rparr>]"
proof -
  obtain r s' where run: "run_text env k s = (r, s')"
    by (cases "run_text env k s")
  let ?s1 = "print_lines [Rule, TestingText k (length body), Rule, ModeFast] s"
  from run_text_cases [OF k run] obtain tf stf s2 r3 s3 where
    c1: "benchmark_humanization env body k False ?s1 = (Inr (tf, stf), s2)"
    and c2: "print_time_stats tf stf s2 = (r3, s3)"
    and rest: "case r3 of
          Inl e \<Rightarrow> r = Inl e \<and> s' = s3
        | Inr u \<Rightarrow> (\<exists>te ste s4 r5 s5.
            benchmark_humanization env body k True (print_line ModeEnhanced s3)
               = (Inr (te, ste), s4)
            \<and> print_time_stats te ste s4 = (r5, s5)
            \<and> (case r5 of
                 Inl e \<Rightarrow> r = Inl e \<and> s' = s5
               | Inr u' \<Rightarrow> r = Inr () \<and> base_url s' = base_url s5 \<and> sent s' = sent s5
                    \<and> results s' = results s5 @
                        [\<lparr>size_r = k, length_r = length body,
                          fast_mode = tf, enhanced_mode = te\<rparr>]))"
    by blast
  from print_time_stats_returns [OF returned_statistics [OF env c1], of tf s2] c2
  have r3: "r3 = Inr ()" by auto
  have s3: "results s3 = results s"
    using benchmark_humanization_frame(1) [OF c1] print_time_stats_frame(1) [OF c2]
    by (simp add: print_lines_def)
  from rest r3 obtain te ste s4 r5 s5 where
      c3: "benchmark_humanization env body k True (print_line ModeEnhanced s3)
               = (Inr (te, ste), s4)"
      and c4: "print_time_stats te ste s4 = (r5, s5)"
      and fin: "case r5 of
                 Inl e \<Rightarrow> r = Inl e \<and> s' = s5
               | Inr u' \<Rightarrow> r = Inr () \<and> base_url s' = base_url s5 \<and> sent s' = sent s5
                    \<and> results s' = results s5 @
                        [\<lparr>size_r = k, length_r = length body,
                          fast_mode = tf, enhanced_mode = te\<rparr>]"
    by auto
  from print_time_stats_returns [OF returned_statistics [OF env c3], of te s4] c4
  have r5: "r5 = Inr ()" by auto
  have s5: "results s5 = results s"
    using benchmark_humanization_frame(1) [OF c3] print_time_stats_frame(1) [OF c4] s3
    by (simp add: print_line_def)
  from fin r5 s5 run show ?thesis by simp
qed

lemma run_texts_complete:
  assumes env: "mapping_statistics env"
  shows "set ks \<subseteq> fst ` set TEST_TEXTS \<Longrightarrow>
     fst (run_texts env ks s) = Inr ()
     \<and> map size_r (results (snd (run_texts env ks s))) = map size_r (results s) @ ks
     \<and> map length_r (results (snd (run_texts env ks s)))
         = map length_r (results s) @ map (\<lambda>k. length (the (map_of TEST_TEXTS k))) ks"
proof (induction ks arbitrary: s)
  case Nil
  show ?case by simp
next
  case (Cons k ks)
  from Cons.prems obtain body where k: "map_of TEST_TEXTS k = Some body"
    by (cases "map_of TEST_TEXTS k") (auto simp: map_of_eq_None_iff)
  from run_text_complete [OF env k, of s] obtain s1 tf te where
    run: "run_text env k s = (Inr (), s1)"
    and r1: "results s1 = results s @
         [\<lparr>size_r = k, length_r = length body, fast_mode = tf, enhanced_mode = te\<rparr>]"
    by blast
  from Cons.prems have "set ks \<subseteq> fst ` set TEST_TEXTS" by simp
  from Cons.IH [OF this, of s1] run r1 k show ?case by simp
qed


text \<open>
  Claim C5. With the availability check passing, a run should append one record per
  sample text. It does so whenever the statistics sent are dicts (lemma
  \<open>run_texts_complete\<close>), but a 200 response whose \<^verbatim>\<open>statistics\<close> value is a
  non-empty list is returned by the timed call as it is, and the printing code of the
  sweep then calls \<^verbatim>\<open>.get\<close> on it outside any \<^verbatim>\<open>try\<close> block: the run ends
  with an AttributeError and no record at all.
\<close>

theorem list_statistics_abort_the_sweep:
  "fst (check_server env_list_stats default_state) = Inr True
   \<and> fst (run_benchmark env_list_stats default_state) = Inl AttributeError
   \<and> results (snd (run_benchmark env_list_stats default_state)) = []"
  by (simp add: run_benchmark_def check_server_def send_def print_lines_def print_line_def
       default_state_def init_def env_list_stats_def answers_def
       run_text_def TEST_TEXTS_def benchmark_humanization_def
       humanize_try_def print_time_stats_def speedup_of_value print_summary_value Let_def)


end
